theory Spec2Isabelle
  imports Main
begin

section \<open>Constants of \<^verbatim>\<open>contracts/p2p-lending.clar\<close>\<close>

definition STATUS_OPEN :: nat where "STATUS_OPEN = 0"
definition STATUS_FUNDED :: nat where "STATUS_FUNDED = 1"
definition STATUS_REPAID :: nat where "STATUS_REPAID = 2"
definition STATUS_DEFAULTED :: nat where "STATUS_DEFAULTED = 3"
definition STATUS_CANCELLED :: nat where "STATUS_CANCELLED = 4"

definition ERR_LOAN_EXISTS :: nat where "ERR_LOAN_EXISTS = 100"
definition ERR_LOAN_NOT_FOUND :: nat where "ERR_LOAN_NOT_FOUND = 101"
definition ERR_NOT_BORROWER :: nat where "ERR_NOT_BORROWER = 102"
definition ERR_NOT_LENDER :: nat where "ERR_NOT_LENDER = 103"
definition ERR_NOT_OPEN :: nat where "ERR_NOT_OPEN = 104"
definition ERR_NOT_FUNDED :: nat where "ERR_NOT_FUNDED = 105"
definition ERR_PAST_DUE :: nat where "ERR_PAST_DUE = 106"
definition ERR_NOT_PAST_DUE :: nat where "ERR_NOT_PAST_DUE = 107"
definition ERR_BAD_AMOUNT :: nat where "ERR_BAD_AMOUNT = 108"
definition ERR_SAME_ASSET :: nat where "ERR_SAME_ASSET = 109"
definition ERR_NO_LENDER :: nat where "ERR_NO_LENDER = 110"
definition ERR_BAD_REPAY :: nat where "ERR_BAD_REPAY = 111"

text \<open>The constant of the token contract (\<^verbatim>\<open>sbtc-token.clar\<close>) that its \<^verbatim>\<open>transfer\<close> uses.\<close>

definition ERR_UNAUTHORIZED :: nat where "ERR_UNAUTHORIZED = 201"

section \<open>Data model\<close>

text \<open>
  A Clarity principal is a standard (wallet) address or a contract identifier. The two
  contracts of the repository are the only contract principals the lending code names.
\<close>

datatype principal = Wallet nat | Contract string

text \<open>\<^verbatim>\<open>(contract-self)\<close> is \<^verbatim>\<open>(as-contract tx-sender)\<close>: the lending contract's own principal.\<close>

definition contract_self :: principal where
  "contract_self = Contract ''p2p-lending''"

definition TOKEN_CONTRACT :: principal where
  "TOKEN_CONTRACT = Contract ''sbtc-token''"

text \<open>
  Clarity's \<^verbatim>\<open>uint\<close> is an unsigned 128-bit integer whose arithmetic does not wrap:
  an addition that leaves the range is a runtime error that aborts the transaction.
  Amounts and block heights are natural numbers here and the one addition of the
  contract is the checked \<open>uint_add\<close>.
\<close>

definition UINT_MAX :: nat where
  "UINT_MAX = 2 ^ 128 - 1"

definition uint_add :: "nat \<Rightarrow> nat \<Rightarrow> nat option" where
  "uint_add a b = (if a + b \<le> UINT_MAX then Some (a + b) else None)"

text \<open>The value type of the \<^verbatim>\<open>loans\<close> map, field by field.\<close>

record loan =
  borrower :: principal
  lender :: "principal option"
  principal_is_stx :: bool
  principal_amount :: nat
  collateral_is_stx :: bool
  collateral_amount :: nat
  repay_amount :: nat
  start_block :: nat
  end_block :: nat
  status :: nat

text \<open>
  The chain state the contract reads and writes: the native STX balances, the balances of
  the fungible token \<^verbatim>\<open>sbtc\<close>, the \<^verbatim>\<open>loans\<close> map and the current \<^verbatim>\<open>block-height\<close>.
\<close>

record chain =
  stx_balance :: "principal \<Rightarrow> nat"
  sbtc_balance :: "principal \<Rightarrow> nat"
  loans :: "nat \<rightharpoonup> loan"
  block_height :: nat

text \<open>
  What evaluating a public function gives: \<^verbatim>\<open>(ok b)\<close>, \<^verbatim>\<open>(err u)\<close>, or a runtime error
  of the virtual machine, which aborts the transaction (here the arithmetic overflow of
  \<^verbatim>\<open>+\<close> and a \<^verbatim>\<open>contract-call?\<close> whose target is not a contract name).
\<close>

datatype response = Ok bool | Err nat | RuntimeAbort

section \<open>Asset primitives\<close>

text \<open>
  \<^verbatim>\<open>stx-transfer?\<close> is a primitive of the Clarity language, not code of the repository.
  The language reference gives its outcomes: \<^verbatim>\<open>(err u3)\<close> for a zero amount, \<^verbatim>\<open>(err u2)\<close>
  when sender and recipient are the same principal, \<^verbatim>\<open>(err u4)\<close> when the sender is not
  the current \<^verbatim>\<open>tx-sender\<close>, \<^verbatim>\<open>(err u1)\<close> when the sender's balance is below the amount;
  the reference implementation tests them in this order. The current \<^verbatim>\<open>tx-sender\<close> is the
  first argument here. Inside the lending contract it is the signer of the transaction:
  the contract evaluates \<^verbatim>\<open>as-contract\<close> only around the expression \<^verbatim>\<open>tx-sender\<close> in
  \<^verbatim>\<open>contract-self\<close>, never around a transfer. Balances are natural numbers; the total
  supply of either asset is below the range of \<^verbatim>\<open>uint\<close>, so crediting a recipient never
  overflows.
\<close>

definition move_balance :: "(principal \<Rightarrow> nat) \<Rightarrow> nat \<Rightarrow> principal \<Rightarrow> principal \<Rightarrow> (principal \<Rightarrow> nat)" where
  "move_balance bal amount sender recipient =
     (bal(sender := bal sender - amount))(recipient := bal recipient + amount)"

definition stx_transfer :: "principal \<Rightarrow> nat \<Rightarrow> principal \<Rightarrow> principal \<Rightarrow> chain \<Rightarrow> response \<times> chain" where
  "stx_transfer tx_sender amount sender recipient s =
     (if amount = 0 then (Err 3, s)
      else if sender = recipient then (Err 2, s)
      else if sender \<noteq> tx_sender then (Err 4, s)
      else if stx_balance s sender < amount then (Err 1, s)
      else (Ok True, s\<lparr>stx_balance := move_balance (stx_balance s) amount sender recipient\<rparr>))"

text \<open>
  \<^verbatim>\<open>ft-transfer?\<close> on the token \<^verbatim>\<open>sbtc\<close>: the same checks without the one on
  \<^verbatim>\<open>tx-sender\<close> (the primitive leaves authorisation to the contract that owns the token).
\<close>

definition ft_transfer :: "nat \<Rightarrow> principal \<Rightarrow> principal \<Rightarrow> chain \<Rightarrow> response \<times> chain" where
  "ft_transfer amount sender recipient s =
     (if amount = 0 then (Err 3, s)
      else if sender = recipient then (Err 2, s)
      else if sbtc_balance s sender < amount then (Err 1, s)
      else (Ok True, s\<lparr>sbtc_balance := move_balance (sbtc_balance s) amount sender recipient\<rparr>))"

text \<open>
  \<^verbatim>\<open>try!\<close>: an \<^verbatim>\<open>(err e)\<close> leaves the enclosing function with that error, an \<^verbatim>\<open>(ok v)\<close>
  continues. The state reached so far is kept in the pair; discarding it is the work of
  \<open>commit\<close> below.
\<close>

definition try_ok :: "response \<times> chain \<Rightarrow> (chain \<Rightarrow> response \<times> chain) \<Rightarrow> response \<times> chain" where
  "try_ok r k = (case fst r of Ok v \<Rightarrow> k (snd r) | Err e \<Rightarrow> (Err e, snd r) | RuntimeAbort \<Rightarrow> (RuntimeAbort, snd r))"

text \<open>
  A public function that does not return \<^verbatim>\<open>(ok ...)\<close> has every change it made to the
  chain state undone by the virtual machine.
\<close>

definition commit :: "chain \<Rightarrow> response \<times> chain \<Rightarrow> response \<times> chain" where
  "commit s r = (case fst r of Ok v \<Rightarrow> r | Err e \<Rightarrow> (Err e, s) | RuntimeAbort \<Rightarrow> (RuntimeAbort, s))"

text \<open>
  The public \<^verbatim>\<open>transfer\<close> of \<^verbatim>\<open>sbtc-token.clar\<close> (the memo is not used). Inside the token
  contract \<^verbatim>\<open>contract-caller\<close> is the contract that made the call. The lending contract
  never enters this function: see \<open>transfer_asset\<close>.
\<close>

definition sbtc_transfer :: "principal \<Rightarrow> principal \<Rightarrow> nat \<Rightarrow> principal \<Rightarrow> principal \<Rightarrow> chain \<Rightarrow> response \<times> chain" where
  "sbtc_transfer tx_sender contract_caller amount sender recipient s =
     commit s
       (if \<not> (tx_sender = sender \<or> contract_caller = sender) then (Err ERR_UNAUTHORIZED, s)
        else try_ok (ft_transfer amount sender recipient s) (\<lambda>s1. (Ok True, s1)))"

section \<open>The lending contract\<close>

text \<open>
  The STX branch of \<^verbatim>\<open>transfer-asset\<close> is the primitive. The token branch is
  \<^verbatim>\<open>(contract-call? TOKEN-CONTRACT transfer amount sender recipient none)\<close>, where
  \<^verbatim>\<open>TOKEN-CONTRACT\<close> is a \<^verbatim>\<open>define-constant\<close>. \<^verbatim>\<open>contract-call?\<close> takes a literal contract
  identifier or a trait reference as its target, not a constant: evaluating the
  expression raises the virtual machine's \<^verbatim>\<open>ContractCallExpectName\<close>, a runtime error
  that aborts the transaction before the token contract is entered. So the token branch
  is an abort, whatever the amount, the parties and their balances.
\<close>

definition transfer_asset :: "principal \<Rightarrow> bool \<Rightarrow> nat \<Rightarrow> principal \<Rightarrow> principal \<Rightarrow> chain \<Rightarrow> response \<times> chain" where
  "transfer_asset tx_sender is_stx amount sender recipient s =
     (if is_stx
      then stx_transfer tx_sender amount sender recipient s
      else (RuntimeAbort, s))"

definition get_loan :: "nat \<Rightarrow> chain \<Rightarrow> loan option" where
  "get_loan loan_id s = loans s loan_id"

definition create_loan ::
  "principal \<Rightarrow> nat \<Rightarrow> bool \<Rightarrow> nat \<Rightarrow> nat \<Rightarrow> nat \<Rightarrow> bool \<Rightarrow> nat \<Rightarrow> chain \<Rightarrow> response \<times> chain" where
  "create_loan tx_sender loan_id p_is_stx p_amount r_amount duration c_is_stx c_amount s =
     (if loans s loan_id \<noteq> None then (Err ERR_LOAN_EXISTS, s)
      else if p_is_stx = c_is_stx then (Err ERR_SAME_ASSET, s)
      else if \<not> p_amount > 0 then (Err ERR_BAD_AMOUNT, s)
      else if \<not> c_amount > 0 then (Err ERR_BAD_AMOUNT, s)
      else if \<not> duration > 0 then (Err ERR_BAD_AMOUNT, s)
      else if \<not> r_amount \<ge> p_amount then (Err ERR_BAD_REPAY, s)
      else try_ok (transfer_asset tx_sender c_is_stx c_amount tx_sender contract_self s)
        (\<lambda>s1. (Ok True,
           s1\<lparr>loans := (loans s1)(loan_id \<mapsto>
             \<lparr>borrower = tx_sender,
              lender = None,
              principal_is_stx = p_is_stx,
              principal_amount = p_amount,
              collateral_is_stx = c_is_stx,
              collateral_amount = c_amount,
              repay_amount = r_amount,
              start_block = 0,
              end_block = duration,
              status = STATUS_OPEN\<rparr>)\<rparr>)))"

definition cancel_loan :: "principal \<Rightarrow> nat \<Rightarrow> chain \<Rightarrow> response \<times> chain" where
  "cancel_loan tx_sender loan_id s =
     (case loans s loan_id of
        None \<Rightarrow> (Err ERR_LOAN_NOT_FOUND, s)
      | Some ln \<Rightarrow>
          if status ln \<noteq> STATUS_OPEN then (Err ERR_NOT_OPEN, s)
          else if tx_sender \<noteq> borrower ln then (Err ERR_NOT_BORROWER, s)
          else try_ok (transfer_asset tx_sender (collateral_is_stx ln) (collateral_amount ln)
                         contract_self (borrower ln) s)
            (\<lambda>s1. (Ok True,
               s1\<lparr>loans := (loans s1)(loan_id \<mapsto> ln\<lparr>status := STATUS_CANCELLED\<rparr>)\<rparr>)))"

definition fund_loan :: "principal \<Rightarrow> nat \<Rightarrow> chain \<Rightarrow> response \<times> chain" where
  "fund_loan tx_sender loan_id s =
     (case loans s loan_id of
        None \<Rightarrow> (Err ERR_LOAN_NOT_FOUND, s)
      | Some ln \<Rightarrow>
          if status ln \<noteq> STATUS_OPEN then (Err ERR_NOT_OPEN, s)
          else try_ok (transfer_asset tx_sender (principal_is_stx ln) (principal_amount ln)
                         tx_sender contract_self s)
            (\<lambda>s1. try_ok (transfer_asset tx_sender (principal_is_stx ln) (principal_amount ln)
                             contract_self (borrower ln) s1)
              (\<lambda>s2. case uint_add (block_height s2) (end_block ln) of
                       None \<Rightarrow> (RuntimeAbort, s2)
                     | Some e \<Rightarrow>
                         (Ok True,
                          s2\<lparr>loans := (loans s2)(loan_id \<mapsto>
                            ln\<lparr>lender := Some tx_sender,
                               start_block := block_height s2,
                               end_block := e,
                               status := STATUS_FUNDED\<rparr>)\<rparr>))))"

text \<open>The two deadline guards, as the \<^verbatim>\<open>asserts!\<close> of \<^verbatim>\<open>repay\<close> and \<^verbatim>\<open>claim-default\<close> write them.\<close>

definition repay_deadline_ok :: "nat \<Rightarrow> loan \<Rightarrow> bool" where
  "repay_deadline_ok height ln = (height \<le> end_block ln)"

definition default_deadline_ok :: "nat \<Rightarrow> loan \<Rightarrow> bool" where
  "default_deadline_ok height ln = (height > end_block ln)"

definition repay :: "principal \<Rightarrow> nat \<Rightarrow> chain \<Rightarrow> response \<times> chain" where
  "repay tx_sender loan_id s =
     (case loans s loan_id of
        None \<Rightarrow> (Err ERR_LOAN_NOT_FOUND, s)
      | Some ln \<Rightarrow>
          if status ln \<noteq> STATUS_FUNDED then (Err ERR_NOT_FUNDED, s)
          else if tx_sender \<noteq> borrower ln then (Err ERR_NOT_BORROWER, s)
          else if \<not> repay_deadline_ok (block_height s) ln then (Err ERR_PAST_DUE, s)
          else (case lender ln of
                  None \<Rightarrow> (Err ERR_NO_LENDER, s)
                | Some lndr \<Rightarrow>
                    try_ok (transfer_asset tx_sender (principal_is_stx ln) (repay_amount ln)
                              tx_sender lndr s)
                      (\<lambda>s1. try_ok (transfer_asset tx_sender (collateral_is_stx ln)
                                       (collateral_amount ln) contract_self (borrower ln) s1)
                        (\<lambda>s2. (Ok True,
                           s2\<lparr>loans := (loans s2)(loan_id \<mapsto> ln\<lparr>status := STATUS_REPAID\<rparr>)\<rparr>)))))"

definition claim_default :: "principal \<Rightarrow> nat \<Rightarrow> chain \<Rightarrow> response \<times> chain" where
  "claim_default tx_sender loan_id s =
     (case loans s loan_id of
        None \<Rightarrow> (Err ERR_LOAN_NOT_FOUND, s)
      | Some ln \<Rightarrow>
          if status ln \<noteq> STATUS_FUNDED then (Err ERR_NOT_FUNDED, s)
          else if \<not> default_deadline_ok (block_height s) ln then (Err ERR_NOT_PAST_DUE, s)
          else (case lender ln of
                  None \<Rightarrow> (Err ERR_NO_LENDER, s)
                | Some lndr \<Rightarrow>
                    if tx_sender \<noteq> lndr then (Err ERR_NOT_LENDER, s)
                    else try_ok (transfer_asset tx_sender (collateral_is_stx ln)
                                   (collateral_amount ln) contract_self lndr s)
                      (\<lambda>s1. (Ok True,
                         s1\<lparr>loans := (loans s1)(loan_id \<mapsto> ln\<lparr>status := STATUS_DEFAULTED\<rparr>)\<rparr>))))"

section \<open>The write boundary\<close>

text \<open>
  The five public functions as one operation type. \<open>run_body\<close> evaluates the body of the
  function for the signer \<open>tx_sender\<close>; \<open>call\<close> is the transaction: the body, then the
  virtual machine's commit or rollback.
\<close>

datatype operation =
    Create nat bool nat nat nat bool nat
  | Cancel nat
  | Fund nat
  | Repay nat
  | ClaimDefault nat

fun run_body :: "principal \<Rightarrow> operation \<Rightarrow> chain \<Rightarrow> response \<times> chain" where
  "run_body c (Create loan_id p_is_stx p_amount r_amount duration c_is_stx c_amount) s =
     create_loan c loan_id p_is_stx p_amount r_amount duration c_is_stx c_amount s"
| "run_body c (Cancel loan_id) s = cancel_loan c loan_id s"
| "run_body c (Fund loan_id) s = fund_loan c loan_id s"
| "run_body c (Repay loan_id) s = repay c loan_id s"
| "run_body c (ClaimDefault loan_id) s = claim_default c loan_id s"

definition call :: "principal \<Rightarrow> operation \<Rightarrow> chain \<Rightarrow> response \<times> chain" where
  "call c op s = commit s (run_body c op s)"

fun loan_id_of :: "operation \<Rightarrow> nat" where
  "loan_id_of (Create loan_id p_is_stx p_amount r_amount duration c_is_stx c_amount) = loan_id"
| "loan_id_of (Cancel loan_id) = loan_id"
| "loan_id_of (Fund loan_id) = loan_id"
| "loan_id_of (Repay loan_id) = loan_id"
| "loan_id_of (ClaimDefault loan_id) = loan_id"

text \<open>
  The checks a function makes before its first transfer (the lookup of the loan, its
  \<^verbatim>\<open>asserts!\<close> and its \<^verbatim>\<open>unwrap!\<close>), collected per operation.
\<close>

fun preconditions :: "principal \<Rightarrow> operation \<Rightarrow> chain \<Rightarrow> bool" where
  "preconditions c (Create loan_id p_is_stx p_amount r_amount duration c_is_stx c_amount) s =
     (loans s loan_id = None \<and> p_is_stx \<noteq> c_is_stx \<and> p_amount > 0 \<and> c_amount > 0 \<and>
      duration > 0 \<and> r_amount \<ge> p_amount)"
| "preconditions c (Cancel loan_id) s =
     (case loans s loan_id of None \<Rightarrow> False
      | Some ln \<Rightarrow> status ln = STATUS_OPEN \<and> c = borrower ln)"
| "preconditions c (Fund loan_id) s =
     (case loans s loan_id of None \<Rightarrow> False
      | Some ln \<Rightarrow> status ln = STATUS_OPEN)"
| "preconditions c (Repay loan_id) s =
     (case loans s loan_id of None \<Rightarrow> False
      | Some ln \<Rightarrow> status ln = STATUS_FUNDED \<and> c = borrower ln \<and>
          repay_deadline_ok (block_height s) ln \<and> lender ln \<noteq> None)"
| "preconditions c (ClaimDefault loan_id) s =
     (case loans s loan_id of None \<Rightarrow> False
      | Some ln \<Rightarrow> status ln = STATUS_FUNDED \<and> default_deadline_ok (block_height s) ln \<and>
          lender ln = Some c)"

section \<open>Runs and reachable states\<close>

text \<open>
  One step of the chain as the lending contract sees it: a transaction that calls one of the
  five public functions (successful or not), or anything else that happens on the chain
  (other transactions, token mints, new blocks), which may change balances and the block
  height but never the \<^verbatim>\<open>loans\<close> map, since only the lending contract writes it.
\<close>

inductive step :: "chain \<Rightarrow> chain \<Rightarrow> bool" where
  transaction: "call tx_sender op s = (r, s') \<Longrightarrow> step s s'"
| environment: "loans s' = loans s \<Longrightarrow> step s s'"

text \<open>The states reachable from a freshly deployed contract, whose map is empty.\<close>

inductive reachable :: "chain \<Rightarrow> bool" where
  deployed: "loans s = Map.empty \<Longrightarrow> reachable s"
| later: "reachable s \<Longrightarrow> step s s' \<Longrightarrow> reachable s'"

text \<open>The four edges of the status graph, and the terminal statuses.\<close>

definition status_edge :: "nat \<Rightarrow> nat \<Rightarrow> bool" where
  "status_edge a b =
     (a = STATUS_OPEN \<and> (b = STATUS_FUNDED \<or> b = STATUS_CANCELLED) \<or>
      a = STATUS_FUNDED \<and> (b = STATUS_REPAID \<or> b = STATUS_DEFAULTED))"


section \<open>The scenarios of \<^verbatim>\<open>tests/p2p-lending.test.ts\<close>\<close>

text \<open>
  The simnet once the token mints of the tests are done: every wallet holds its genesis
  STX, the contracts hold nothing, wallets 1 to 4 hold the minted tokens (lender and
  borrower of the first test, the borrowers of the second and third), no loan exists.
\<close>

definition simnet :: chain where
  "simnet =
     \<lparr>stx_balance = (\<lambda>p. case p of Wallet n \<Rightarrow> 100000000000000 | Contract c \<Rightarrow> 0),
      sbtc_balance = (\<lambda>p. 0)(Wallet 1 := 200, Wallet 2 := 1200, Wallet 3 := 600, Wallet 4 := 900),
      loans = Map.empty,
      block_height = 1\<rparr>"

text \<open>
  First test (Scenario A): wallet 1 creates loan 1 with token principal and STX
  collateral. \<open>happy_later\<close> is the same chain one block later.
\<close>

definition happy_created :: chain where
  "happy_created = snd (call (Wallet 1) (Create 1 False 1000 1100 10 True 500000) simnet)"

definition happy_later :: chain where
  "happy_later = happy_created\<lparr>block_height := block_height happy_created + 1\<rparr>"

text \<open>
  A loan like that of the first test whose borrower, wallet 2, holds more tokens than
  the principal asks for.
\<close>

definition self_created :: chain where
  "self_created = snd (call (Wallet 2) (Create 5 False 1000 1100 10 True 500000) simnet)"

section \<open>Auxiliary facts about the primitives and the five functions\<close>

lemmas status_defs =
  STATUS_OPEN_def STATUS_FUNDED_def STATUS_REPAID_def STATUS_DEFAULTED_def STATUS_CANCELLED_def

lemmas err_defs =
  ERR_LOAN_EXISTS_def ERR_LOAN_NOT_FOUND_def ERR_NOT_BORROWER_def ERR_NOT_LENDER_def
  ERR_NOT_OPEN_def ERR_NOT_FUNDED_def ERR_PAST_DUE_def ERR_NOT_PAST_DUE_def
  ERR_BAD_AMOUNT_def ERR_SAME_ASSET_def ERR_NO_LENDER_def ERR_BAD_REPAY_def
  ERR_UNAUTHORIZED_def

lemmas eval_defs =
  call_def commit_def try_ok_def create_loan_def cancel_loan_def fund_loan_def repay_def
  claim_default_def transfer_asset_def stx_transfer_def move_balance_def contract_self_def
  uint_add_def UINT_MAX_def repay_deadline_ok_def default_deadline_ok_def status_defs err_defs

lemmas scenario_defs =
  simnet_def happy_created_def happy_later_def self_created_def

lemma try_ok_simps:
  "try_ok (Ok b, s1) k = k s1"
  "try_ok (Err e, s1) k = (Err e, s1)"
  "try_ok (RuntimeAbort, s1) k = (RuntimeAbort, s1)"
  by (simp_all add: try_ok_def)

lemma commit_simps:
  "commit s (Ok b, s1) = (Ok b, s1)"
  "commit s (Err e, s1) = (Err e, s)"
  "commit s (RuntimeAbort, s1) = (RuntimeAbort, s)"
  by (simp_all add: commit_def)

lemma stx_transfer_cases:
  "(\<exists>e. stx_transfer c a x y s = (Err e, s)) \<or>
   (stx_transfer c a x y s = (Ok True, s\<lparr>stx_balance := move_balance (stx_balance s) a x y\<rparr>)
      \<and> a > 0 \<and> x \<noteq> y \<and> x = c \<and> a \<le> stx_balance s x)"
  by (auto simp: stx_transfer_def)

lemma transfer_asset_cases:
  "(\<exists>e. transfer_asset c k a x y s = (Err e, s)) \<or>
   transfer_asset c k a x y s = (RuntimeAbort, s) \<or>
   (\<exists>s1. transfer_asset c k a x y s = (Ok True, s1) \<and> loans s1 = loans s
      \<and> block_height s1 = block_height s)"
  using stx_transfer_cases[of c a x y s]
  by (auto simp: transfer_asset_def)

text \<open>A transfer that succeeds is an STX transfer out of the signer's own balance.\<close>

lemma transfer_asset_ok_stx:
  assumes "transfer_asset c k a x y s = (Ok b, s1)"
  shows "k \<and> x = c \<and> x \<noteq> y \<and> loans s1 = loans s \<and> block_height s1 = block_height s"
  using assms stx_transfer_cases[of c a x y s]
  by (auto simp: transfer_asset_def split: if_splits)

lemma transfer_asset_ok_loans:
  "transfer_asset c k a x y s = (Ok b, s1) \<Longrightarrow> loans s1 = loans s \<and> block_height s1 = block_height s"
  using transfer_asset_ok_stx[of c k a x y s b s1] by simp


lemma call_not_ok_unchanged:
  "call c op s = (r, s') \<Longrightarrow> \<forall>b. r \<noteq> Ok b \<Longrightarrow> s' = s"
  by (auto simp: call_def commit_def split: response.splits)

lemma call_create_ok:
  assumes "call c (Create i pk p r d ck ca) s = (Ok b, s')"
  shows "loans s i = None \<and> pk \<noteq> ck \<and> p > 0 \<and> ca > 0 \<and> d > 0 \<and> r \<ge> p \<and> b \<and>
     (\<exists>s1. transfer_asset c ck ca c contract_self s = (Ok True, s1) \<and>
       s' = s1\<lparr>loans := (loans s1)(i \<mapsto>
             \<lparr>borrower = c, lender = None, principal_is_stx = pk, principal_amount = p,
              collateral_is_stx = ck, collateral_amount = ca, repay_amount = r,
              start_block = 0, end_block = d, status = STATUS_OPEN\<rparr>)\<rparr>)"
  using assms transfer_asset_cases[of c ck ca c contract_self s]
  by (auto simp: call_def create_loan_def try_ok_simps commit_simps split: if_splits)

lemma call_cancel_ok:
  assumes "call c (Cancel i) s = (Ok b, s')"
  shows "\<exists>ln s1. loans s i = Some ln \<and> status ln = STATUS_OPEN \<and> c = borrower ln \<and> b \<and>
     transfer_asset c (collateral_is_stx ln) (collateral_amount ln) contract_self (borrower ln) s = (Ok True, s1) \<and>
     s' = s1\<lparr>loans := (loans s1)(i \<mapsto> ln\<lparr>status := STATUS_CANCELLED\<rparr>)\<rparr>"
proof -
  from assms obtain ln where ln: "loans s i = Some ln"
    by (auto simp: call_def cancel_loan_def commit_simps split: option.splits)
  show ?thesis
    using assms ln
      transfer_asset_cases[of c "collateral_is_stx ln" "collateral_amount ln" contract_self "borrower ln" s]
    by (auto simp: call_def cancel_loan_def try_ok_simps commit_simps split: if_splits)
qed

lemma call_fund_ok:
  assumes "call c (Fund i) s = (Ok b, s')"
  shows "\<exists>ln s1 s2 e. loans s i = Some ln \<and> status ln = STATUS_OPEN \<and> b \<and>
     transfer_asset c (principal_is_stx ln) (principal_amount ln) c contract_self s = (Ok True, s1) \<and>
     transfer_asset c (principal_is_stx ln) (principal_amount ln) contract_self (borrower ln) s1 = (Ok True, s2) \<and>
     uint_add (block_height s2) (end_block ln) = Some e \<and>
     s' = s2\<lparr>loans := (loans s2)(i \<mapsto> ln\<lparr>lender := Some c, start_block := block_height s2,
                               end_block := e, status := STATUS_FUNDED\<rparr>)\<rparr>"
proof -
  from assms obtain ln where ln: "loans s i = Some ln"
    by (auto simp: call_def fund_loan_def commit_simps split: option.splits)
  let ?t1 = "transfer_asset c (principal_is_stx ln) (principal_amount ln) c contract_self s"
  from assms ln obtain s1 where s1: "?t1 = (Ok True, s1)"
    using transfer_asset_cases[of c "principal_is_stx ln" "principal_amount ln" c contract_self s]
    by (auto simp: call_def fund_loan_def try_ok_simps commit_simps split: if_splits)
  show ?thesis
    using assms ln s1
      transfer_asset_cases[of c "principal_is_stx ln" "principal_amount ln" contract_self "borrower ln" s1]
    by (auto simp: call_def fund_loan_def try_ok_simps commit_simps split: if_splits option.splits)
qed

lemma call_repay_ok:
  assumes "call c (Repay i) s = (Ok b, s')"
  shows "\<exists>ln lndr s1 s2. loans s i = Some ln \<and> status ln = STATUS_FUNDED \<and> c = borrower ln \<and> b \<and>
     repay_deadline_ok (block_height s) ln \<and> lender ln = Some lndr \<and>
     transfer_asset c (principal_is_stx ln) (repay_amount ln) c lndr s = (Ok True, s1) \<and>
     transfer_asset c (collateral_is_stx ln) (collateral_amount ln) contract_self (borrower ln) s1 = (Ok True, s2) \<and>
     s' = s2\<lparr>loans := (loans s2)(i \<mapsto> ln\<lparr>status := STATUS_REPAID\<rparr>)\<rparr>"
proof -
  from assms obtain ln where ln: "loans s i = Some ln"
    by (auto simp: call_def repay_def commit_simps split: option.splits)
  from assms ln obtain lndr where lndr: "lender ln = Some lndr"
    by (auto simp: call_def repay_def commit_simps split: option.splits if_splits)
  let ?t1 = "transfer_asset c (principal_is_stx ln) (repay_amount ln) c lndr s"
  from assms ln lndr obtain s1 where s1: "?t1 = (Ok True, s1)"
    using transfer_asset_cases[of c "principal_is_stx ln" "repay_amount ln" c lndr s]
    by (auto simp: call_def repay_def try_ok_simps commit_simps split: if_splits)
  show ?thesis
    using assms ln lndr s1
      transfer_asset_cases[of c "collateral_is_stx ln" "collateral_amount ln" contract_self "borrower ln" s1]
    by (auto simp: call_def repay_def try_ok_simps commit_simps split: if_splits option.splits)
qed

lemma call_claim_default_ok:
  assumes "call c (ClaimDefault i) s = (Ok b, s')"
  shows "\<exists>ln s1. loans s i = Some ln \<and> status ln = STATUS_FUNDED \<and> b \<and>
     default_deadline_ok (block_height s) ln \<and> lender ln = Some c \<and>
     transfer_asset c (collateral_is_stx ln) (collateral_amount ln) contract_self c s = (Ok True, s1) \<and>
     s' = s1\<lparr>loans := (loans s1)(i \<mapsto> ln\<lparr>status := STATUS_DEFAULTED\<rparr>)\<rparr>"
proof -
  from assms obtain ln where ln: "loans s i = Some ln"
    by (auto simp: call_def claim_default_def commit_simps split: option.splits)
  from assms ln have lndr: "lender ln = Some c"
    by (auto simp: call_def claim_default_def commit_simps split: option.splits if_splits)
  show ?thesis
    using assms ln lndr
      transfer_asset_cases[of c "collateral_is_stx ln" "collateral_amount ln" contract_self c s]
    by (auto simp: call_def claim_default_def try_ok_simps commit_simps split: if_splits option.splits)
qed

lemma call_ok_loans:
  assumes "call c op s = (Ok b, s')"
  shows "b \<and> (\<forall>j. j \<noteq> loan_id_of op \<longrightarrow> loans s' j = loans s j) \<and>
   (\<exists>ln'. loans s' (loan_id_of op) = Some ln' \<and>
     (loans s (loan_id_of op) = None \<and> status ln' = STATUS_OPEN \<or>
      (\<exists>ln. loans s (loan_id_of op) = Some ln \<and> status_edge (status ln) (status ln') \<and>
         (status ln' = STATUS_FUNDED \<longrightarrow> lender ln' \<noteq> None))))"
proof (cases op)
  case (Create i pk p r d ck ca)
  from call_create_ok[of c i pk p r d ck ca s b s'] assms Create
  obtain s1 where h: "loans s i = None" "b"
    "transfer_asset c ck ca c contract_self s = (Ok True, s1)"
    "s' = s1\<lparr>loans := (loans s1)(i \<mapsto>
             \<lparr>borrower = c, lender = None, principal_is_stx = pk, principal_amount = p,
              collateral_is_stx = ck, collateral_amount = ca, repay_amount = r,
              start_block = 0, end_block = d, status = STATUS_OPEN\<rparr>)\<rparr>"
    by auto
  from transfer_asset_ok_loans[OF h(3)] have "loans s1 = loans s" by simp
  with h Create show ?thesis by simp
next
  case (Cancel i)
  from call_cancel_ok[of c i s b s'] assms Cancel
  obtain ln s1 where h: "loans s i = Some ln" "status ln = STATUS_OPEN" "b"
    "transfer_asset c (collateral_is_stx ln) (collateral_amount ln) contract_self (borrower ln) s = (Ok True, s1)"
    "s' = s1\<lparr>loans := (loans s1)(i \<mapsto> ln\<lparr>status := STATUS_CANCELLED\<rparr>)\<rparr>"
    by auto
  from transfer_asset_ok_loans[OF h(4)] have "loans s1 = loans s" by simp
  with h Cancel show ?thesis by (simp add: status_edge_def status_defs)
next
  case (Fund i)
  from call_fund_ok[of c i s b s'] assms Fund
  obtain ln s1 s2 e where h: "loans s i = Some ln" "status ln = STATUS_OPEN" "b"
    "transfer_asset c (principal_is_stx ln) (principal_amount ln) c contract_self s = (Ok True, s1)"
    "transfer_asset c (principal_is_stx ln) (principal_amount ln) contract_self (borrower ln) s1 = (Ok True, s2)"
    "s' = s2\<lparr>loans := (loans s2)(i \<mapsto> ln\<lparr>lender := Some c, start_block := block_height s2,
                               end_block := e, status := STATUS_FUNDED\<rparr>)\<rparr>"
    by auto
  from transfer_asset_ok_loans[OF h(4)] transfer_asset_ok_loans[OF h(5)]
  have "loans s2 = loans s" by simp
  with h Fund show ?thesis by (simp add: status_edge_def status_defs)
next
  case (Repay i)
  from call_repay_ok[of c i s b s'] assms Repay
  obtain ln lndr s1 s2 where h: "loans s i = Some ln" "status ln = STATUS_FUNDED" "b"
    "transfer_asset c (principal_is_stx ln) (repay_amount ln) c lndr s = (Ok True, s1)"
    "transfer_asset c (collateral_is_stx ln) (collateral_amount ln) contract_self (borrower ln) s1 = (Ok True, s2)"
    "s' = s2\<lparr>loans := (loans s2)(i \<mapsto> ln\<lparr>status := STATUS_REPAID\<rparr>)\<rparr>"
    by auto
  from transfer_asset_ok_loans[OF h(4)] transfer_asset_ok_loans[OF h(5)]
  have "loans s2 = loans s" by simp
  with h Repay show ?thesis by (simp add: status_edge_def status_defs)
next
  case (ClaimDefault i)
  from call_claim_default_ok[of c i s b s'] assms ClaimDefault
  obtain ln s1 where h: "loans s i = Some ln" "status ln = STATUS_FUNDED" "b"
    "transfer_asset c (collateral_is_stx ln) (collateral_amount ln) contract_self c s = (Ok True, s1)"
    "s' = s1\<lparr>loans := (loans s1)(i \<mapsto> ln\<lparr>status := STATUS_DEFAULTED\<rparr>)\<rparr>"
    by auto
  from transfer_asset_ok_loans[OF h(4)] have "loans s1 = loans s" by simp
  with h ClaimDefault show ?thesis by (simp add: status_edge_def status_defs)
qed


subsection \<open>Failing checks\<close>

text \<open>
  A call whose checks fail returns a tagged error and changes nothing; a call that does
  not return \<^verbatim>\<open>(ok true)\<close> changes nothing and is a tagged error or a runtime abort.
\<close>

lemma precondition_failure:
  assumes "\<not> preconditions c op s"
  shows "\<exists>e. call c op s = (Err e, s)"
proof (cases op)
  case (Create i pk p r d ck ca)
  with assms show ?thesis
    by (auto simp: call_def create_loan_def commit_simps)
next
  case (Cancel i)
  with assms show ?thesis
    by (auto simp: call_def cancel_loan_def commit_simps split: option.splits)
next
  case (Fund i)
  with assms show ?thesis
    by (auto simp: call_def fund_loan_def commit_simps split: option.splits)
next
  case (Repay i)
  with assms show ?thesis
    by (auto simp: call_def repay_def commit_simps split: option.splits)
next
  case (ClaimDefault i)
  with assms show ?thesis
    by (auto simp: call_def claim_default_def commit_simps split: option.splits)
qed


lemma call_failure_unchanged:
  assumes "call c op s = (r, s')" and "r \<noteq> Ok True"
  shows "s' = s \<and> ((\<exists>e. r = Err e) \<or> r = RuntimeAbort)"
proof -
  have nok: "\<forall>b. r \<noteq> Ok b"
  proof (intro allI notI)
    fix b assume "r = Ok b"
    with assms(1) call_ok_loans[of c op s b s'] have "b" by simp
    with \<open>r = Ok b\<close> assms(2) show False by simp
  qed
  from call_not_ok_unchanged[OF assms(1) nok] nok show ?thesis
    by (cases r) auto
qed

subsection \<open>Transfers out of escrow and token transfers\<close>

text \<open>
  Every release from escrow names the contract as sender while \<^verbatim>\<open>tx-sender\<close> is the
  signer of the transaction, so the STX primitive refuses it; every token transfer
  aborts. Cancel, Repay and ClaimDefault end in a release from escrow, and Fund forwards
  the principal out of escrow: none of the four succeeds, in any chain state and for any
  signer.
\<close>

lemma cancel_never_ok: "fst (call c (Cancel i) s) \<noteq> Ok b"
proof
  assume "fst (call c (Cancel i) s) = Ok b"
  then have "call c (Cancel i) s = (Ok b, snd (call c (Cancel i) s))" by (simp add: prod_eq_iff)
  from call_cancel_ok[OF this] obtain ln :: loan and s1 where
    h: "c = borrower ln"
    "transfer_asset c (collateral_is_stx ln) (collateral_amount ln) contract_self (borrower ln) s = (Ok True, s1)"
    by blast
  from transfer_asset_ok_stx[OF h(2)] h(1) show False by blast
qed

lemma fund_never_ok: "fst (call c (Fund i) s) \<noteq> Ok b"
proof
  assume "fst (call c (Fund i) s) = Ok b"
  then have "call c (Fund i) s = (Ok b, snd (call c (Fund i) s))" by (simp add: prod_eq_iff)
  from call_fund_ok[OF this] obtain ln :: loan and s1 s2 where
    t: "transfer_asset c (principal_is_stx ln) (principal_amount ln) c contract_self s = (Ok True, s1)"
       "transfer_asset c (principal_is_stx ln) (principal_amount ln) contract_self (borrower ln) s1 = (Ok True, s2)"
    by blast
  from transfer_asset_ok_stx[OF t(1)] transfer_asset_ok_stx[OF t(2)] show False by blast
qed

lemma repay_never_ok: "fst (call c (Repay i) s) \<noteq> Ok b"
proof
  assume "fst (call c (Repay i) s) = Ok b"
  then have "call c (Repay i) s = (Ok b, snd (call c (Repay i) s))" by (simp add: prod_eq_iff)
  from call_repay_ok[OF this] obtain ln :: loan and s1 s2 where
    h: "c = borrower ln"
    "transfer_asset c (collateral_is_stx ln) (collateral_amount ln) contract_self (borrower ln) s1 = (Ok True, s2)"
    by blast
  from transfer_asset_ok_stx[OF h(2)] h(1) show False by blast
qed

lemma claim_default_never_ok: "fst (call c (ClaimDefault i) s) \<noteq> Ok b"
proof
  assume "fst (call c (ClaimDefault i) s) = Ok b"
  then have "call c (ClaimDefault i) s = (Ok b, snd (call c (ClaimDefault i) s))"
    by (simp add: prod_eq_iff)
  from call_claim_default_ok[OF this] obtain ln :: loan and s1 where
    h: "transfer_asset c (collateral_is_stx ln) (collateral_amount ln) contract_self c s = (Ok True, s1)"
    by blast
  from transfer_asset_ok_stx[OF h] show False by blast
qed

text \<open>
  So the only call that changes the chain is a Create with STX collateral, and in the
  states reachable from deployment every loan is Open, has no lender, token principal
  and STX collateral.
\<close>

lemma call_ok_is_create:
  assumes "call c op s = (Ok b, s')"
  shows "\<exists>i p r d ca. op = Create i False p r d True ca"
proof (cases op)
  case (Create i pk p r d ck ca)
  from call_create_ok[of c i pk p r d ck ca s b s'] assms Create
  obtain s1 where "pk \<noteq> ck" "transfer_asset c ck ca c contract_self s = (Ok True, s1)" by blast
  with transfer_asset_ok_stx[of c ck ca c contract_self s True s1] Create show ?thesis by auto
next
  case (Cancel i)
  with assms cancel_never_ok[of c i s b] show ?thesis by simp
next
  case (Fund i)
  with assms fund_never_ok[of c i s b] show ?thesis by simp
next
  case (Repay i)
  with assms repay_never_ok[of c i s b] show ?thesis by simp
next
  case (ClaimDefault i)
  with assms claim_default_never_ok[of c i s b] show ?thesis by simp
qed

lemma upd_lookup:
  "m' = m(i \<mapsto> x) \<Longrightarrow> m' j = Some y \<Longrightarrow> (j = i \<and> y = x) \<or> (j \<noteq> i \<and> m j = Some y)"
  by (auto split: if_splits)

lemma reachable_all_open:
  assumes "reachable s"
  shows "\<forall>i ln. loans s i = Some ln \<longrightarrow>
     status ln = STATUS_OPEN \<and> lender ln = None \<and> \<not> principal_is_stx ln \<and> collateral_is_stx ln"
  using assms
proof (induction rule: reachable.induct)
  case (deployed s)
  then show ?case by simp
next
  case (later s s')
  from later(2) show ?case
  proof cases
    case (transaction c op r)
    show ?thesis
    proof (cases "\<exists>b. r = Ok b")
      case True
      then obtain b where ok: "call c op s = (Ok b, s')" using transaction by blast
      from call_ok_is_create[OF ok] obtain i p rr d ca where
        op: "op = Create i False p rr d True ca" by blast
      let ?new = "\<lparr>borrower = c, lender = None, principal_is_stx = False, principal_amount = p,
              collateral_is_stx = True, collateral_amount = ca, repay_amount = rr,
              start_block = 0, end_block = d, status = STATUS_OPEN\<rparr>"
      from call_create_ok[of c i False p rr d True ca s b s'] ok op
      obtain s1 where h: "transfer_asset c True ca c contract_self s = (Ok True, s1)"
        "s' = s1\<lparr>loans := (loans s1)(i \<mapsto> ?new)\<rparr>" by blast
      from transfer_asset_ok_loans[OF h(1)] h(2) have l: "loans s' = (loans s)(i \<mapsto> ?new)" by simp
      show ?thesis
      proof (intro allI impI)
        fix j ln assume "loans s' j = Some ln"
        from upd_lookup[OF l this] later(3)
        show "status ln = STATUS_OPEN \<and> lender ln = None \<and> \<not> principal_is_stx ln \<and> collateral_is_stx ln"
          by auto
      qed
    next
      case False
      with call_not_ok_unchanged[OF transaction] have "loans s' = loans s" by simp
      with later(3) show ?thesis by metis
    qed
  next
    case environment
    with later(3) show ?thesis by metis
  qed
qed

subsection \<open>Runs and the status graph\<close>






subsection \<open>The lender of a funded loan\<close>




subsection \<open>The first scenario as a run\<close>



section \<open>The claims\<close>

subsection \<open>Repay, Fund and Cancel on the paths of the tests\<close>

text \<open>
  Claim C1. A Repay by the stored borrower of a Funded loan, on time, with the lender set
  and balances sufficient, is claimed to succeed whatever the two asset kinds are, as in
  Scenario A. On the path of Scenario A (the first test) Create succeeds, the Fund by
  wallet 2 aborts on its token leg, loan 1 is still Open, and the borrower's Repay
  returns \<open>ERR_NOT_FUNDED\<close> with the chain as Create left it. And in no chain state,
  for no signer and no loan, does a Repay return \<^verbatim>\<open>(ok ...)\<close>: its principal leg aborts when
  the principal is the token, and otherwise its collateral leg aborts (token) or is
  refused by \<^verbatim>\<open>stx-transfer?\<close> (STX, sender the contract, \<^verbatim>\<open>tx-sender\<close> the borrower).
\<close>

theorem scenario_a_repay_fails:
  "call (Wallet 1) (Create 1 False 1000 1100 10 True 500000) simnet = (Ok True, happy_created) \<and>
   call (Wallet 2) (Fund 1) happy_created = (RuntimeAbort, happy_created) \<and>
   status (the (loans happy_created 1)) = STATUS_OPEN \<and>
   call (Wallet 1) (Repay 1) happy_created = (Err ERR_NOT_FUNDED, happy_created) \<and>
   fst (call c (Repay i) s) \<noteq> Ok b"
  using repay_never_ok[of c i s b] by (simp add: eval_defs scenario_defs)

text \<open>
  Claim C2. A Fund of an Open loan by a caller with sufficient balance is claimed to
  succeed for both principal asset kinds. On the path of the first test (token principal)
  Create succeeds, wallet 2 holds 1200 tokens against a principal of 1000, and Fund
  aborts with the chain unchanged: its first leg is the token transfer. On the path of
  the third test (STX principal, token collateral) Create itself aborts on the token
  leg, so no loan 3 exists and Fund returns \<open>ERR_LOAN_NOT_FOUND\<close>. And in no chain
  state, for no signer and no loan, does a Fund return \<^verbatim>\<open>(ok ...)\<close>: with STX principal the
  forwarding leg is an \<^verbatim>\<open>stx-transfer?\<close> whose sender, the contract, is not \<^verbatim>\<open>tx-sender\<close>.
\<close>

theorem scenario_fund_aborts:
  "call (Wallet 1) (Create 1 False 1000 1100 10 True 500000) simnet = (Ok True, happy_created) \<and>
   sbtc_balance happy_created (Wallet 2) = 1200 \<and>
   call (Wallet 2) (Fund 1) happy_created = (RuntimeAbort, happy_created) \<and>
   call (Wallet 4) (Create 3 True 100000 110000 5 False 500) simnet = (RuntimeAbort, simnet) \<and>
   call (Wallet 5) (Fund 3) simnet = (Err ERR_LOAN_NOT_FOUND, simnet) \<and>
   fst (call c (Fund i) s) \<noteq> Ok b"
  using fund_never_ok[of c i s b] by (simp add: eval_defs scenario_defs)

text \<open>
  Claim C3. A Cancel of an Open loan by the stored borrower is claimed to succeed for both
  collateral asset kinds. For the loan of the first test (STX collateral), right after its
  creation, the contract holds the 500000 escrowed micro-STX and Cancel by the borrower
  returns \<^verbatim>\<open>(err u4)\<close> with the chain unchanged.
\<close>

theorem cancel_stx_collateral_fails:
  "fst (call (Wallet 1) (Create 1 False 1000 1100 10 True 500000) simnet) = Ok True \<and>
   stx_balance happy_created contract_self = 500000 \<and>
   call (Wallet 1) (Cancel 1) happy_created = (Err 4, happy_created)"
  by (simp add: eval_defs scenario_defs)

text \<open>
  Claim C10. The borrower of an Open loan, holding enough of the principal asset, is
  claimed to be able to fund the own loan. Wallet 2 creates loan 5 (token principal
  1000, STX collateral), is its stored borrower and holds 1200 tokens; its own Fund of
  loan 5 aborts on the token leg, with the chain unchanged.
\<close>

theorem self_fund_aborts:
  "call (Wallet 2) (Create 5 False 1000 1100 10 True 500000) simnet = (Ok True, self_created) \<and>
   borrower (the (loans self_created 5)) = Wallet 2 \<and>
   status (the (loans self_created 5)) = STATUS_OPEN \<and>
   sbtc_balance self_created (Wallet 2) = 1200 \<and>
   call (Wallet 2) (Fund 5) self_created = (RuntimeAbort, self_created)"
  by (simp add: eval_defs scenario_defs)

subsection \<open>Deadline guards\<close>

text \<open>
  Claim C5. At every block height exactly one of the two deadline guards holds for a loan:
  the guard of Repay (height at most \<open>end_block\<close>) or the guard of ClaimDefault (height
  above \<open>end_block\<close>). At the boundary height \<open>end_block\<close> itself the guard of Repay
  holds and the guard of ClaimDefault does not. In no chain state do a Repay and a
  ClaimDefault of the same loan both succeed, whoever the callers are.
\<close>

theorem deadline_guards_exclusive:
  "repay_deadline_ok h ln = (\<not> default_deadline_ok h ln) \<and>
   repay_deadline_ok (end_block ln) ln \<and>
   \<not> default_deadline_ok (end_block ln) ln \<and>
   \<not> (fst (call c1 (Repay i) s) = Ok True \<and> fst (call c2 (ClaimDefault i) s) = Ok True)"
proof -
  have "\<not> (fst (call c1 (Repay i) s) = Ok True \<and> fst (call c2 (ClaimDefault i) s) = Ok True)"
  proof
    assume "fst (call c1 (Repay i) s) = Ok True \<and> fst (call c2 (ClaimDefault i) s) = Ok True"
    then obtain s1 s2 where
      "call c1 (Repay i) s = (Ok True, s1)" "call c2 (ClaimDefault i) s = (Ok True, s2)"
      by (metis prod.collapse)
    from call_repay_ok[OF this(1)] call_claim_default_ok[OF this(2)]
    show False by (auto simp: repay_deadline_ok_def default_deadline_ok_def)
  qed
  then show ?thesis
    by (auto simp: repay_deadline_ok_def default_deadline_ok_def)
qed

subsection \<open>All-or-nothing commit\<close>

text \<open>
  Claim C4. A write operation in which a check or an asset transfer fails is claimed to
  return a typed error and to leave loan records and balances as they were. Wallet 5
  holds no tokens; its Fund of loan 1 (token principal 1000) leaves the chain as it was,
  as claimed, but returns no typed error: the token leg is a runtime abort, so the
  result is no \<^verbatim>\<open>(err e)\<close> for any \<open>e\<close>.
\<close>

theorem failed_token_leg_not_typed:
  "call (Wallet 1) (Create 1 False 1000 1100 10 True 500000) simnet = (Ok True, happy_created) \<and>
   sbtc_balance happy_created (Wallet 5) = 0 \<and>
   call (Wallet 5) (Fund 1) happy_created = (RuntimeAbort, happy_created) \<and>
   fst (call (Wallet 5) (Fund 1) happy_created) \<noteq> Err e"
  by (simp add: eval_defs scenario_defs)

subsection \<open>Status monotonicity\<close>



subsection \<open>The lender of a funded loan\<close>



subsection \<open>Validation errors of Create\<close>

text \<open>
  Claim C8, as stated: every one of the five violations makes Create fail with the one
  error \<open>ERR_BAD_AMOUNT\<close>. It fails for two of them: identical asset kinds give
  \<open>ERR_SAME_ASSET\<close> (109) and a repay amount below the principal gives
  \<open>ERR_BAD_REPAY\<close> (111), neither of which is \<open>ERR_BAD_AMOUNT\<close> (108).
\<close>

theorem create_errors_not_single_tag:
  "fst (call (Wallet 1) (Create 1 True 1000 1100 10 True 500000) simnet) = Err ERR_SAME_ASSET \<and>
   fst (call (Wallet 1) (Create 1 True 1000 1100 10 True 500000) simnet) \<noteq> Err ERR_BAD_AMOUNT \<and>
   fst (call (Wallet 1) (Create 1 False 1000 900 10 True 500000) simnet) = Err ERR_BAD_REPAY \<and>
   fst (call (Wallet 1) (Create 1 False 1000 900 10 True 500000) simnet) \<noteq> Err ERR_BAD_AMOUNT"
  by (simp add: eval_defs scenario_defs)

text \<open>
  Claim C8, amended. On an unused loan id Create fails, with the chain unchanged, with
  \<open>ERR_SAME_ASSET\<close> when the two asset kinds are identical; otherwise with
  \<open>ERR_BAD_AMOUNT\<close> when the principal amount, the collateral amount or the duration
  is zero; otherwise with \<open>ERR_BAD_REPAY\<close> when the repay amount is below the
  principal amount. The three tags are pairwise distinct.
\<close>

theorem create_loan_validation_errors:
  assumes "loans s i = None"
  shows "(pk = ck \<longrightarrow> call c (Create i pk p r d ck ca) s = (Err ERR_SAME_ASSET, s)) \<and>
         (pk \<noteq> ck \<and> (p = 0 \<or> ca = 0 \<or> d = 0) \<longrightarrow>
            call c (Create i pk p r d ck ca) s = (Err ERR_BAD_AMOUNT, s)) \<and>
         (pk \<noteq> ck \<and> p > 0 \<and> ca > 0 \<and> d > 0 \<and> r < p \<longrightarrow>
            call c (Create i pk p r d ck ca) s = (Err ERR_BAD_REPAY, s)) \<and>
         ERR_SAME_ASSET \<noteq> ERR_BAD_AMOUNT \<and> ERR_BAD_REPAY \<noteq> ERR_BAD_AMOUNT \<and>
         ERR_SAME_ASSET \<noteq> ERR_BAD_REPAY"
  using assms by (auto simp: call_def create_loan_def commit_simps err_defs)

text \<open>The instance: one Create per violation, on the empty simnet.\<close>

theorem create_loan_validation_errors_witness:
  "loans simnet 1 = None \<and>
   call (Wallet 1) (Create 1 True 1000 1100 10 True 500000) simnet = (Err ERR_SAME_ASSET, simnet) \<and>
   call (Wallet 1) (Create 1 False 0 1100 10 True 500000) simnet = (Err ERR_BAD_AMOUNT, simnet) \<and>
   call (Wallet 1) (Create 1 False 1000 1100 10 True 0) simnet = (Err ERR_BAD_AMOUNT, simnet) \<and>
   call (Wallet 1) (Create 1 False 1000 1100 0 True 500000) simnet = (Err ERR_BAD_AMOUNT, simnet) \<and>
   call (Wallet 1) (Create 1 False 1000 900 10 True 500000) simnet = (Err ERR_BAD_REPAY, simnet)"
proof -
  have h: "loans simnet 1 = None" by (simp add: simnet_def)
  show ?thesis
    using h
      create_loan_validation_errors[OF h, where pk=True and ck=True and c="Wallet 1" and p=1000 and r=1100 and d=10 and ca=500000]
      create_loan_validation_errors[OF h, where pk=False and ck=True and c="Wallet 1" and p=0 and r=1100 and d=10 and ca=500000]
      create_loan_validation_errors[OF h, where pk=False and ck=True and c="Wallet 1" and p=1000 and r=1100 and d=10 and ca=0]
      create_loan_validation_errors[OF h, where pk=False and ck=True and c="Wallet 1" and p=1000 and r=1100 and d=0 and ca=500000]
      create_loan_validation_errors[OF h, where pk=False and ck=True and c="Wallet 1" and p=1000 and r=900 and d=10 and ca=500000]
    by simp
qed

end
